theory Spec2Isabelle
  imports Main
begin

text \<open>
  The token lifecycle of the JWT authentication server: signing and verification
  (\<open>JwtUtil\<close>), the Redis blacklist (\<open>TokenBlacklist\<close>), the user repository, the use
  cases, and the HTTP handlers that call them. Every function takes the state of the
  two stores and returns the new one; a thrown \<open>Error\<close> is a left value. The clock is an
  argument, in whole seconds since the epoch, as both the token library and
  \<open>TokenBlacklist\<close> read it.
\<close>

section \<open>Entities (entities/User.ts)\<close>

datatype UserRole = ADMIN | USER | MODERATOR

record IAuthPayload =
  userId :: string
  payload_email :: string
  payload_role :: UserRole

text \<open>
  Tokens are strings in the source. A string that the jsonwebtoken library can parse is
  represented by its content: the signed payload, the \<open>iat\<close> and \<open>exp\<close> claims (whole
  seconds) and the secret that produced its signature. Every other string is \<open>Raw s\<close>;
  \<open>Raw []\<close> is the empty string. Every token the service mints carries \<open>exp\<close>
  (\<open>expiresIn\<close> is always passed), and so does every \<open>Jwt\<close> of this model.
\<close>

datatype token = Jwt IAuthPayload nat nat string | Raw string

record IUser =
  user_id :: "string option"
  email :: string
  password :: string
  name :: string
  role :: UserRole
  isActive :: bool
  refreshTokens :: "token list"
  createdAt :: "nat option"
  updatedAt :: "nat option"

record UserSummary =
  summary_id :: "string option"
  summary_email :: string
  summary_name :: string
  summary_role :: UserRole

record IAuthResponse =
  accessToken :: token
  refreshToken :: token
  user :: UserSummary

text \<open>A thrown \<open>Error(message)\<close>.\<close>

datatype error = Error (message: string)

section \<open>The process environment and the two stores\<close>

text \<open>
  \<open>JWT_EXPIRE\<close> and \<open>JWT_REFRESH_EXPIRE\<close> hold the number of seconds the configured
  time span denotes, \<open>PORT\<close> the port number; \<open>None\<close> is an unset or empty variable.
\<close>

record env =
  JWT_SECRET :: "string option"
  JWT_EXPIRE :: "nat option"
  JWT_REFRESH_SECRET :: "string option"
  JWT_REFRESH_EXPIRE :: "nat option"
  PORT :: "nat option"
  REDIS_URL :: "string option"
  MONGODB_URI :: "string option"

text \<open>A document of the \<open>User\<close> collection (models/UserModel.ts).\<close>

record IUserDocument =
  doc_id :: string
  doc_email :: string
  doc_password :: string
  doc_name :: string
  doc_role :: UserRole
  doc_isActive :: bool
  doc_refreshTokens :: "token list"
  doc_createdAt :: nat
  doc_updatedAt :: nat

text \<open>
  The shared state: the user collection, and the Redis key space, each key
  \<open>blacklist:<token>\<close> with its value and the second at which it expires.
  \<open>redis_up\<close> is false while the commands of the Redis client are rejected (the
  client is closed, or the server refuses them); a command that is only delayed is not
  a rejected one.
\<close>

record world =
  users :: "IUserDocument list"
  redis_up :: bool
  redis_keys :: "token \<rightharpoonup> (string \<times> nat)"

datatype upstream = Unavailable

definition redis_set :: "world \<Rightarrow> nat \<Rightarrow> token \<Rightarrow> string \<Rightarrow> nat \<Rightarrow> upstream + world" where
  "redis_set w now key v ttl =
     (if redis_up w then Inr (w\<lparr>redis_keys := (redis_keys w)(key \<mapsto> (v, now + ttl))\<rparr>)
      else Inl Unavailable)"

definition redis_get :: "world \<Rightarrow> nat \<Rightarrow> token \<Rightarrow> upstream + string option" where
  "redis_get w now key =
     (if redis_up w
      then Inr (case redis_keys w key of
                  None \<Rightarrow> None
                | Some (v, expires) \<Rightarrow> if now < expires then Some v else None)
      else Inl Unavailable)"

section \<open>The jsonwebtoken calls\<close>

text \<open>
  \<open>jwt.sign\<close> throws when the secret is missing or empty; otherwise the token is
  determined by the payload, the secret and the second of issue.
  \<open>jwt.verify\<close> throws (here: \<open>None\<close>) on a missing secret, a malformed token, a
  signature made with another secret, and when the clock has reached \<open>exp\<close>.
  \<open>jwt.decode\<close> reads the claims without checking anything.
\<close>

definition jwt_sign :: "IAuthPayload \<Rightarrow> string option \<Rightarrow> nat \<Rightarrow> nat \<Rightarrow> error + token" where
  "jwt_sign payload secret expiresIn now =
     (case secret of
        None \<Rightarrow> Inl (Error ''secretOrPrivateKey must have a value'')
      | Some k \<Rightarrow>
          if k = [] then Inl (Error ''secretOrPrivateKey must have a value'')
          else Inr (Jwt payload now (now + expiresIn) k))"

definition jwt_verify :: "token \<Rightarrow> string option \<Rightarrow> nat \<Rightarrow> IAuthPayload option" where
  "jwt_verify t secret now =
     (case secret of
        None \<Rightarrow> None
      | Some k \<Rightarrow>
          (case t of
             Raw s \<Rightarrow> None
           | Jwt payload iat exp signed_with \<Rightarrow>
               if k \<noteq> [] \<and> signed_with = k \<and> now < exp then Some payload else None))"

definition jwt_decode_exp :: "token \<Rightarrow> nat option" where
  "jwt_decode_exp t = (case t of Raw s \<Rightarrow> None | Jwt payload iat exp signed_with \<Rightarrow> Some exp)"

section \<open>JwtUtil (utils/JwtUtil.ts)\<close>

definition generateAccessToken :: "env \<Rightarrow> nat \<Rightarrow> IAuthPayload \<Rightarrow> error + token" where
  "generateAccessToken e now payload =
     jwt_sign payload (JWT_SECRET e)
       (case JWT_EXPIRE e of None \<Rightarrow> 7 * 86400 | Some s \<Rightarrow> s) now"

definition generateRefreshToken :: "env \<Rightarrow> nat \<Rightarrow> IAuthPayload \<Rightarrow> error + token" where
  "generateRefreshToken e now payload =
     jwt_sign payload (JWT_REFRESH_SECRET e)
       (case JWT_REFRESH_EXPIRE e of None \<Rightarrow> 30 * 86400 | Some s \<Rightarrow> s) now"

definition verifyAccessToken :: "env \<Rightarrow> nat \<Rightarrow> token \<Rightarrow> IAuthPayload option" where
  "verifyAccessToken e now t = jwt_verify t (JWT_SECRET e) now"

definition verifyRefreshToken :: "env \<Rightarrow> nat \<Rightarrow> token \<Rightarrow> IAuthPayload option" where
  "verifyRefreshToken e now t = jwt_verify t (JWT_REFRESH_SECRET e) now"

section \<open>TokenBlacklist (utils/TokenBlacklist.ts)\<close>

text \<open>\<open>now\<close> is \<open>Math.floor(Date.now() / 1000)\<close>; a rejected Redis command is caught and logged.\<close>

definition TokenBlacklist_add :: "nat \<Rightarrow> world \<Rightarrow> token \<Rightarrow> world" where
  "TokenBlacklist_add now w t =
     (if t = Raw [] then w
      else case jwt_decode_exp t of
             None \<Rightarrow> w
           | Some exp \<Rightarrow>
               if exp = 0 then w
               else let ttl = int exp - int now in
                    if ttl \<le> 0 then w
                    else (case redis_set w now t ''1'' (nat ttl) of
                            Inl err \<Rightarrow> w
                          | Inr w' \<Rightarrow> w'))"

definition isBlacklisted :: "nat \<Rightarrow> world \<Rightarrow> token \<Rightarrow> bool" where
  "isBlacklisted now w t =
     (if t = Raw [] then False
      else case redis_get w now t of
             Inl err \<Rightarrow> False
           | Inr v \<Rightarrow> (case v of None \<Rightarrow> False | Some s \<Rightarrow> s \<noteq> []))"

section \<open>MongoUserRepository (repositories/implementations/MongoUserRepository.ts)\<close>

text \<open>
  \<open>String.prototype.toLowerCase\<close> and \<open>String.prototype.trim\<close> work on Unicode text.
  They are parameters of the functions that call them; \<open>ascii\<close> gives the two on text
  that is ASCII, for the examples.
\<close>

record string_ops =
  toLowerCase :: "string \<Rightarrow> string"
  trim :: "string \<Rightarrow> string"

definition lower_char :: "char \<Rightarrow> char" where
  "lower_char c =
     (let n = (of_char c :: nat) in if 65 \<le> n \<and> n \<le> 90 then char_of (n + 32) else c)"

definition is_space :: "char \<Rightarrow> bool" where
  "is_space c = ((of_char c :: nat) \<in> {9, 10, 11, 12, 13, 32})"

definition ascii :: string_ops where
  "ascii = \<lparr>toLowerCase = map lower_char,
            trim = (\<lambda>s. rev (dropWhile is_space (rev (dropWhile is_space s))))\<rparr>"

definition toDomain :: "IUserDocument \<Rightarrow> IUser" where
  "toDomain d =
     \<lparr>user_id = Some (doc_id d), email = doc_email d, password = doc_password d,
      name = doc_name d, role = doc_role d, isActive = doc_isActive d,
      refreshTokens = doc_refreshTokens d, createdAt = Some (doc_createdAt d),
      updatedAt = Some (doc_updatedAt d)\<rparr>"

text \<open>
  The schema declares \<open>email\<close> with \<open>lowercase: true, trim: true\<close>; Mongoose applies the
  two setters, the later declared first, to a stored value and to a filter on the
  field, after the repository's own \<open>toLowerCase\<close>.
\<close>

definition findByEmail :: "string_ops \<Rightarrow> world \<Rightarrow> string \<Rightarrow> IUser option" where
  "findByEmail js w e =
     map_option toDomain (find (\<lambda>d. doc_email d = toLowerCase js (trim js (toLowerCase js e))) (users w))"

definition findById :: "world \<Rightarrow> string \<Rightarrow> IUser option" where
  "findById w i = map_option toDomain (find (\<lambda>d. doc_id d = i) (users w))"

text \<open>
  \<open>updateOne({_id: userId}, change)\<close>: the first matching document is changed, if any.
  The schema has \<open>timestamps: true\<close>, so every \<open>updateOne\<close> also sets \<open>updatedAt\<close> of
  the document it matches to the time of the call, whether or not the change itself
  alters anything.
\<close>

fun updateOne :: "string \<Rightarrow> (IUserDocument \<Rightarrow> IUserDocument) \<Rightarrow> IUserDocument list \<Rightarrow> IUserDocument list" where
  "updateOne i f [] = []"
| "updateOne i f (d # ds) = (if doc_id d = i then f d # ds else d # updateOne i f ds)"

definition addRefreshToken :: "nat \<Rightarrow> world \<Rightarrow> string \<Rightarrow> token \<Rightarrow> world" where
  "addRefreshToken now w i t =
     w\<lparr>users :=
         updateOne i
           (\<lambda>d. d\<lparr>doc_refreshTokens := doc_refreshTokens d @ [t], doc_updatedAt := now\<rparr>)
           (users w)\<rparr>"

definition removeRefreshToken :: "nat \<Rightarrow> world \<Rightarrow> string \<Rightarrow> token \<Rightarrow> world" where
  "removeRefreshToken now w i t =
     w\<lparr>users :=
         updateOne i
           (\<lambda>d. d\<lparr>doc_refreshTokens := filter (\<lambda>x. x \<noteq> t) (doc_refreshTokens d),
                  doc_updatedAt := now\<rparr>)
           (users w)\<rparr>"

definition getRefreshTokens :: "world \<Rightarrow> string \<Rightarrow> token list" where
  "getRefreshTokens w i =
     (case find (\<lambda>d. doc_id d = i) (users w) of None \<Rightarrow> [] | Some d \<Rightarrow> doc_refreshTokens d)"

text \<open>
  \<open>create\<close> builds the document from email, password, name, role and isActive only; the
  schema lowercases and trims the email and supplies \<open>refreshTokens = []\<close> and both
  timestamps. \<open>user.role || UserRole.USER\<close> is \<open>user.role\<close>, every role being a
  non-empty string. \<open>save\<close> rejects an empty required field and a duplicate of a
  unique field. \<open>newId\<close> is the ObjectId the driver generates.
\<close>

definition create ::
  "string_ops \<Rightarrow> nat \<Rightarrow> string \<Rightarrow> world \<Rightarrow> IUser \<Rightarrow> (error + IUser) \<times> world" where
  "create js now newId w u =
     (let d = \<lparr>doc_id = newId, doc_email = toLowerCase js (trim js (toLowerCase js (email u))),
               doc_password = password u, doc_name = name u,
               doc_role = role u, doc_isActive = (isActive u \<noteq> False),
               doc_refreshTokens = [], doc_createdAt = now, doc_updatedAt = now\<rparr>
      in if doc_email d = [] \<or> doc_password d = [] \<or> doc_name d = []
         then (Inl (Error ''User validation failed''), w)
         else if find (\<lambda>x. doc_id x = doc_id d \<or> doc_email x = doc_email d) (users w) \<noteq> None
         then (Inl (Error ''E11000 duplicate key error''), w)
         else (Inr (toDomain d), w\<lparr>users := users w @ [d]\<rparr>))"

section \<open>Use cases\<close>

text \<open>
  \<open>hashPassword\<close> and \<open>comparePasswords\<close> stand for \<open>PasswordUtil\<close>, which wraps the
  password hashing library.
\<close>

definition RegisterUseCase_execute ::
  "string_ops \<Rightarrow> (string \<Rightarrow> string) \<Rightarrow> nat \<Rightarrow> string \<Rightarrow> world \<Rightarrow> string \<Rightarrow> string \<Rightarrow> string \<Rightarrow> (error + IUser) \<times> world" where
  "RegisterUseCase_execute js hashPassword now newId w em pw nm =
     (case findByEmail js w em of
        Some existingUser \<Rightarrow> (Inl (Error ''User already exists with this email''), w)
      | None \<Rightarrow>
          let hashedPassword = hashPassword pw;
              newUser = \<lparr>user_id = None, email = em, password = hashedPassword, name = nm,
                         role = USER, isActive = True, refreshTokens = [],
                         createdAt = None, updatedAt = None\<rparr>
          in create js now newId w newUser)"

definition summary :: "IUser \<Rightarrow> UserSummary" where
  "summary u =
     \<lparr>summary_id = user_id u, summary_email = email u, summary_name = name u,
      summary_role = role u\<rparr>"

text \<open>
  \<open>user._id!\<close> is the id \<open>toDomain\<close> filled in. A user without one would give
  \<open>userId: undefined\<close>, which no repository call matches; it is written here as the
  empty id, which no document has.
\<close>

definition the_id :: "IUser \<Rightarrow> string" where
  "the_id u = (case user_id u of None \<Rightarrow> [] | Some i \<Rightarrow> i)"

definition LoginUseCase_execute ::
  "string_ops \<Rightarrow> (string \<Rightarrow> string \<Rightarrow> bool) \<Rightarrow> env \<Rightarrow> nat \<Rightarrow> world \<Rightarrow> string \<Rightarrow> string \<Rightarrow> (error + IAuthResponse) \<times> world" where
  "LoginUseCase_execute js comparePasswords e now w em pw =
     (case findByEmail js w em of
        None \<Rightarrow> (Inl (Error ''Invalid email or password''), w)
      | Some u \<Rightarrow>
          if \<not> isActive u then (Inl (Error ''User account is not active''), w)
          else if \<not> comparePasswords pw (password u)
          then (Inl (Error ''Invalid email or password''), w)
          else
            let payload = \<lparr>userId = the_id u, payload_email = email u, payload_role = role u\<rparr>
            in (case generateAccessToken e now payload of
                  Inl err \<Rightarrow> (Inl err, w)
                | Inr access \<Rightarrow>
                    (case generateRefreshToken e now payload of
                       Inl err \<Rightarrow> (Inl err, w)
                     | Inr refresh \<Rightarrow>
                         (Inr \<lparr>accessToken = access, refreshToken = refresh, user = summary u\<rparr>,
                          addRefreshToken now w (the_id u) refresh))))"

definition RefreshTokenUseCase_execute ::
  "env \<Rightarrow> nat \<Rightarrow> world \<Rightarrow> token \<Rightarrow> (error + IAuthResponse) \<times> world" where
  "RefreshTokenUseCase_execute e now w presented =
     (if isBlacklisted now w presented then (Inl (Error ''Refresh token is revoked''), w)
      else case verifyRefreshToken e now presented of
        None \<Rightarrow> (Inl (Error ''Invalid refresh token''), w)
      | Some payload \<Rightarrow>
          (case findById w (userId payload) of
             None \<Rightarrow> (Inl (Error ''User not found''), w)
           | Some u \<Rightarrow>
               let tokens = getRefreshTokens w (the_id u) in
               if presented \<notin> set tokens
               then (Inl (Error ''Refresh token not found or expired''), w)
               else
                 let newPayload =
                       \<lparr>userId = the_id u, payload_email = email u, payload_role = role u\<rparr>
                 in (case generateAccessToken e now newPayload of
                       Inl err \<Rightarrow> (Inl err, w)
                     | Inr access \<Rightarrow>
                         (case generateRefreshToken e now newPayload of
                            Inl err \<Rightarrow> (Inl err, w)
                          | Inr newRefreshToken \<Rightarrow>
                              let w1 = removeRefreshToken now w (the_id u) presented;
                                  w2 = addRefreshToken now w1 (the_id u) newRefreshToken
                              in (Inr \<lparr>accessToken = access, refreshToken = newRefreshToken,
                                       user = summary u\<rparr>, w2)))))"

definition LogoutUseCase_execute :: "nat \<Rightarrow> world \<Rightarrow> string \<Rightarrow> token \<Rightarrow> world" where
  "LogoutUseCase_execute now w uid presented =
     TokenBlacklist_add now (removeRefreshToken now w uid presented) presented"

record userWithoutSensitiveData =
  pub_id :: "string option"
  pub_email :: string
  pub_name :: string
  pub_role :: UserRole
  pub_isActive :: bool
  pub_createdAt :: "nat option"
  pub_updatedAt :: "nat option"

definition GetUserUseCase_execute :: "world \<Rightarrow> string \<Rightarrow> error + userWithoutSensitiveData" where
  "GetUserUseCase_execute w uid =
     (case findById w uid of
        None \<Rightarrow> Inl (Error ''User not found'')
      | Some u \<Rightarrow>
          Inr \<lparr>pub_id = user_id u, pub_email = email u, pub_name = name u, pub_role = role u,
               pub_isActive = isActive u, pub_createdAt = createdAt u,
               pub_updatedAt = updatedAt u\<rparr>)"

section \<open>The rotation as the sequence of its store calls\<close>

text \<open>
  \<open>RefreshTokenUseCase.execute\<close> is an async function: it gives up control at each
  \<open>await\<close>, and another request may run between two of its store calls. A step is one
  store call together with the synchronous code up to the next one.
\<close>

datatype rotation =
    AtIsBlacklisted
  | AtFindById IAuthPayload
  | AtGetRefreshTokens IUser
  | AtRemoveRefreshToken IUser token token
  | AtAddRefreshToken IUser token token
  | Returned "error + IAuthResponse"

fun rotate_step :: "env \<Rightarrow> token \<Rightarrow> nat \<Rightarrow> rotation \<times> world \<Rightarrow> rotation \<times> world" where
  "rotate_step e presented now (AtIsBlacklisted, w) =
     (if isBlacklisted now w presented then (Returned (Inl (Error ''Refresh token is revoked'')), w)
      else case verifyRefreshToken e now presented of
             None \<Rightarrow> (Returned (Inl (Error ''Invalid refresh token'')), w)
           | Some payload \<Rightarrow> (AtFindById payload, w))"
| "rotate_step e presented now (AtFindById payload, w) =
     (case findById w (userId payload) of
        None \<Rightarrow> (Returned (Inl (Error ''User not found'')), w)
      | Some u \<Rightarrow> (AtGetRefreshTokens u, w))"
| "rotate_step e presented now (AtGetRefreshTokens u, w) =
     (let tokens = getRefreshTokens w (the_id u) in
      if presented \<notin> set tokens
      then (Returned (Inl (Error ''Refresh token not found or expired'')), w)
      else
        let newPayload = \<lparr>userId = the_id u, payload_email = email u, payload_role = role u\<rparr>
        in (case generateAccessToken e now newPayload of
              Inl err \<Rightarrow> (Returned (Inl err), w)
            | Inr access \<Rightarrow>
                (case generateRefreshToken e now newPayload of
                   Inl err \<Rightarrow> (Returned (Inl err), w)
                 | Inr newRefreshToken \<Rightarrow> (AtRemoveRefreshToken u access newRefreshToken, w))))"
| "rotate_step e presented now (AtRemoveRefreshToken u access newRefreshToken, w) =
     (AtAddRefreshToken u access newRefreshToken, removeRefreshToken now w (the_id u) presented)"
| "rotate_step e presented now (AtAddRefreshToken u access newRefreshToken, w) =
     (Returned (Inr \<lparr>accessToken = access, refreshToken = newRefreshToken, user = summary u\<rparr>),
      addRefreshToken now w (the_id u) newRefreshToken)"
| "rotate_step e presented now (Returned r, w) = (Returned r, w)"

text \<open>One call running alone: its steps one after the other, each at its own clock reading.\<close>

fun rotate_run :: "env \<Rightarrow> token \<Rightarrow> nat list \<Rightarrow> rotation \<times> world \<Rightarrow> rotation \<times> world" where
  "rotate_run e presented [] s = s"
| "rotate_run e presented (now # clock) s = rotate_run e presented clock (rotate_step e presented now s)"

text \<open>
  Two calls with the same presented token on the shared stores. The schedule says, step
  by step, which call moves (\<open>True\<close>: the first) and what the clock reads.
\<close>

fun rotate_pair ::
  "env \<Rightarrow> token \<Rightarrow> (bool \<times> nat) list \<Rightarrow> rotation \<times> rotation \<times> world \<Rightarrow> rotation \<times> rotation \<times> world" where
  "rotate_pair e presented [] s = s"
| "rotate_pair e presented ((first, now) # schedule) (a, b, w) =
     (if first
      then (case rotate_step e presented now (a, w) of
              (a', w') \<Rightarrow> rotate_pair e presented schedule (a', b, w'))
      else (case rotate_step e presented now (b, w) of
              (b', w') \<Rightarrow> rotate_pair e presented schedule (a, b', w')))"

section \<open>HTTP layer\<close>

text \<open>
  \<open>Bearer t\<close> is the header \<open>"Bearer " + t\<close>; \<open>Other s\<close> is a header that does not start
  with \<open>"Bearer "\<close>. A response is its status code and the fields of its JSON body.
  The \<open>catch\<close> branches of \<open>authenticate\<close> and \<open>logout\<close> answer an exception of the
  calls they wrap; none of those calls throws here (\<open>TokenBlacklist\<close> and the verifiers
  catch their own, and the repository's connection errors are left out).
\<close>

datatype auth_header = Bearer token | Other string

record request =
  authorization :: "auth_header option"
  body_refreshToken :: "token option"
  req_user :: "IAuthPayload option"

record response =
  status :: nat
  body_success :: "bool option"
  body_message :: "string option"
  body_data :: "IAuthResponse option"

definition reply :: "nat \<Rightarrow> bool option \<Rightarrow> string \<Rightarrow> response" where
  "reply code ok msg =
     \<lparr>status = code, body_success = ok, body_message = Some msg, body_data = None\<rparr>"

definition authenticate :: "env \<Rightarrow> nat \<Rightarrow> world \<Rightarrow> request \<Rightarrow> response + request" where
  "authenticate e now w req =
     (case authorization req of
        None \<Rightarrow> Inl (reply 401 None ''Missing or invalid authorization header'')
      | Some (Other s) \<Rightarrow> Inl (reply 401 None ''Missing or invalid authorization header'')
      | Some (Bearer t) \<Rightarrow>
          if isBlacklisted now w t then Inl (reply 401 None ''Token has been revoked'')
          else (case verifyAccessToken e now t of
                  None \<Rightarrow> Inl (reply 401 None ''Invalid or expired token'')
                | Some payload \<Rightarrow> Inr (req\<lparr>req_user := Some payload\<rparr>)))"

definition AuthController_refreshToken :: "env \<Rightarrow> nat \<Rightarrow> world \<Rightarrow> request \<Rightarrow> response \<times> world" where
  "AuthController_refreshToken e now w req =
     (case body_refreshToken req of
        None \<Rightarrow> (reply 400 None ''Missing refresh token'', w)
      | Some presented \<Rightarrow>
          if presented = Raw [] then (reply 400 None ''Missing refresh token'', w)
          else (case RefreshTokenUseCase_execute e now w presented of
                  (Inr result, w') \<Rightarrow>
                    (\<lparr>status = 200, body_success = Some True,
                      body_message = Some ''Token refreshed successfully'',
                      body_data = Some result\<rparr>, w')
                | (Inl err, w') \<Rightarrow> (reply 401 (Some False) (message err), w')))"

definition AuthController_logout :: "nat \<Rightarrow> world \<Rightarrow> request \<Rightarrow> response \<times> world" where
  "AuthController_logout now w req =
     (case (req_user req, body_refreshToken req) of
        (Some u, Some presented) \<Rightarrow>
          if presented = Raw [] then (reply 400 None ''Missing user or refresh token'', w)
          else
            let w1 = (case authorization req of
                        Some (Bearer access) \<Rightarrow> TokenBlacklist_add now w access
                      | _ \<Rightarrow> w);
                w2 = LogoutUseCase_execute now w1 (userId u) presented
            in (reply 200 (Some True) ''Logout successful'', w2)
      | _ \<Rightarrow> (reply 400 None ''Missing user or refresh token'', w))"

section \<open>Start-up (index.ts, config/redis.ts, config/database.ts)\<close>






section \<open>Relations and scenarios used in the statements\<close>

text \<open>Two stored users that differ at most in the password hash and the refresh tokens.\<close>

definition same_but_secrets :: "IUserDocument \<Rightarrow> IUserDocument \<Rightarrow> bool" where
  "same_but_secrets d d' =
     (d' = d\<lparr>doc_password := doc_password d', doc_refreshTokens := doc_refreshTokens d'\<rparr>)"

text \<open>A secret that is unset or the empty string.\<close>

definition absent :: "string option \<Rightarrow> bool" where
  "absent secret = (secret = None \<or> secret = Some [])"

text \<open>
  Where a rotation of the token \<open>t\<close>, started in the world \<open>w\<close>, stands after the steps
  taken at the clock readings \<open>past\<close>: the Redis side is untouched, and the user
  collection is the original one until the removal (the fourth step), the original one
  with \<open>t\<close> removed between the removal and the insertion (the fifth step), and the one
  with the new token in place of \<open>t\<close> once the call has returned a pair. A call that has
  not returned has taken one step per clock reading.
\<close>

definition summary_the_id :: "IAuthResponse \<Rightarrow> string" where
  "summary_the_id r = (case summary_id (user r) of None \<Rightarrow> [] | Some i \<Rightarrow> i)"

definition rotation_progress :: "token \<Rightarrow> world \<Rightarrow> nat list \<Rightarrow> rotation \<times> world \<Rightarrow> bool" where
  "rotation_progress t w past s =
     (case s of (pc, w') \<Rightarrow>
        redis_up w' = redis_up w \<and> redis_keys w' = redis_keys w \<and>
        (case pc of
           AtIsBlacklisted \<Rightarrow> length past = 0 \<and> users w' = users w
         | AtFindById payload \<Rightarrow> length past = 1 \<and> users w' = users w
         | AtGetRefreshTokens u \<Rightarrow> length past = 2 \<and> users w' = users w
         | AtRemoveRefreshToken u a n \<Rightarrow> length past = 3 \<and> users w' = users w
         | AtAddRefreshToken u a n \<Rightarrow>
             length past = 4 \<and>
             users w' = users (removeRefreshToken (past ! 3) w (the_id u) t)
         | Returned (Inr r) \<Rightarrow>
             5 \<le> length past \<and>
             users w' =
               users (addRefreshToken (past ! 4)
                        (removeRefreshToken (past ! 3) w (summary_the_id r) t)
                        (summary_the_id r) (refreshToken r))
         | Returned (Inl err) \<Rightarrow> users w' = users w))"

text \<open>
  The scenario of the examples: one registered user, who logs in at second 100 and gets
  the pair \<open>(A1, R1)\<close>, and logs out at second 150.
\<close>

definition env0 :: env where
  "env0 = \<lparr>JWT_SECRET = Some ''ka'', JWT_EXPIRE = None,
           JWT_REFRESH_SECRET = Some ''kr'', JWT_REFRESH_EXPIRE = None,
           PORT = None, REDIS_URL = None, MONGODB_URI = None\<rparr>"


definition alice :: IAuthPayload where
  "alice = \<lparr>userId = ''u1'', payload_email = ''a@x.com'', payload_role = USER\<rparr>"

definition alice_summary :: UserSummary where
  "alice_summary = \<lparr>summary_id = Some ''u1'', summary_email = ''a@x.com'',
                     summary_name = ''Ann'', summary_role = USER\<rparr>"

definition A1 :: token where
  "A1 = Jwt alice 100 604900 ''ka''"

definition R1 :: token where
  "R1 = Jwt alice 100 2592100 ''kr''"

definition bob_token :: token where
  "bob_token =
     Jwt \<lparr>userId = ''u2'', payload_email = ''b@x.com'', payload_role = USER\<rparr> 100 2592100 ''kr''"

text \<open>The document of alice, registered at second 5, with its tokens and its last update.\<close>

definition alice_doc :: "token list \<Rightarrow> nat \<Rightarrow> IUserDocument" where
  "alice_doc ts updated =
     \<lparr>doc_id = ''u1'', doc_email = ''a@x.com'', doc_password = ''#pw'', doc_name = ''Ann'',
      doc_role = USER, doc_isActive = True, doc_refreshTokens = ts,
      doc_createdAt = 5, doc_updatedAt = updated\<rparr>"

definition world0 :: world where
  "world0 = \<lparr>users = [], redis_up = True, redis_keys = Map.empty\<rparr>"

definition world1 :: world where
  "world1 = \<lparr>users = [alice_doc [R1] 100], redis_up = True, redis_keys = Map.empty\<rparr>"

definition logout_request :: request where
  "logout_request =
     \<lparr>authorization = Some (Bearer A1), body_refreshToken = Some R1, req_user = Some alice\<rparr>"

definition refresh_request :: "token \<Rightarrow> request" where
  "refresh_request t = \<lparr>authorization = None, body_refreshToken = Some t, req_user = None\<rparr>"

definition world2 :: world where
  "world2 = snd (AuthController_logout 150 world1 logout_request)"

section \<open>Facts about the stores and the scenario\<close>

lemmas scenario_defs = env0_def alice_def A1_def R1_def alice_doc_def world1_def alice_summary_def

lemmas code_defs = RefreshTokenUseCase_execute_def isBlacklisted_def redis_get_def redis_set_def
  verifyRefreshToken_def verifyAccessToken_def jwt_verify_def jwt_sign_def
  generateAccessToken_def generateRefreshToken_def findById_def getRefreshTokens_def
  removeRefreshToken_def addRefreshToken_def toDomain_def the_id_def summary_def Let_def

lemma find_updateOne:
  assumes "\<And>d. doc_id (f d) = doc_id d"
  shows "find (\<lambda>d. doc_id d = i) (updateOne j f ds)
           = (if i = j then map_option f (find (\<lambda>d. doc_id d = i) ds)
              else find (\<lambda>d. doc_id d = i) ds)"
  using assms by (induction ds) auto


lemma findById_the_id: "findById w i = Some u \<Longrightarrow> the_id u = i"
  by (auto simp: findById_def the_id_def toDomain_def find_Some_iff)

lemma getRefreshTokens_remove:
  "getRefreshTokens (removeRefreshToken m w j t) i
     = (if i = j then filter (\<lambda>x. x \<noteq> t) (getRefreshTokens w i) else getRefreshTokens w i)"
  by (simp add: getRefreshTokens_def removeRefreshToken_def find_updateOne split: option.splits)

lemma getRefreshTokens_add:
  "getRefreshTokens (addRefreshToken m w j t) i
     = (if i = j \<and> findById w i \<noteq> None then getRefreshTokens w i @ [t]
        else getRefreshTokens w i)"
  by (simp add: getRefreshTokens_def addRefreshToken_def findById_def find_updateOne
      split: option.splits)

lemma findById_remove:
  "findById (removeRefreshToken m w j t) i
     = map_option
         (\<lambda>u. if i = j
              then u\<lparr>refreshTokens := filter (\<lambda>x. x \<noteq> t) (refreshTokens u), updatedAt := Some m\<rparr>
              else u)
         (findById w i)"
  by (cases "find (\<lambda>d. doc_id d = i) (users w)")
     (auto simp: removeRefreshToken_def findById_def find_updateOne toDomain_def)

lemma findById_add:
  "findById (addRefreshToken m w j t) i
     = map_option
         (\<lambda>u. if i = j then u\<lparr>refreshTokens := refreshTokens u @ [t], updatedAt := Some m\<rparr> else u)
         (findById w i)"
  by (cases "find (\<lambda>d. doc_id d = i) (users w)")
     (auto simp: addRefreshToken_def findById_def find_updateOne toDomain_def)


lemma isBlacklisted_users [simp]:
  "isBlacklisted n (removeRefreshToken m w j t) x = isBlacklisted n w x"
  "isBlacklisted n (addRefreshToken m w j t) x = isBlacklisted n w x"
  by (simp_all add: isBlacklisted_def redis_get_def removeRefreshToken_def addRefreshToken_def)

lemma isBlacklisted_later: "\<not> isBlacklisted n1 w t \<Longrightarrow> n1 \<le> n2 \<Longrightarrow> \<not> isBlacklisted n2 w t"
  by (auto simp: isBlacklisted_def redis_get_def split: if_splits option.splits)

lemma verify_later:
  "jwt_verify t k n1 = Some p \<Longrightarrow>
   jwt_verify t k n2 = (if (\<exists>q iat exp s. t = Jwt q iat exp s \<and> exp \<le> n2) then None else Some p)"
  by (auto simp: jwt_verify_def split: option.splits token.splits if_splits)


lemma generateAccessToken_error:
  "generateAccessToken e now p = Inl err \<Longrightarrow> message err = ''secretOrPrivateKey must have a value''"
  by (auto simp: generateAccessToken_def jwt_sign_def split: option.splits if_splits)

lemma generateRefreshToken_error:
  "generateRefreshToken e now p = Inl err \<Longrightarrow> message err = ''secretOrPrivateKey must have a value''"
  by (auto simp: generateRefreshToken_def jwt_sign_def split: option.splits if_splits)

text \<open>What \<open>TokenBlacklist.add\<close> does, case by case.\<close>

lemma add_characterised:
  "TokenBlacklist_add now w t =
     (case t of
        Raw s \<Rightarrow> w
      | Jwt p iat exp k \<Rightarrow>
          if now < exp \<and> redis_up w
          then w\<lparr>redis_keys := (redis_keys w)(t \<mapsto> (''1'', now + (exp - now)))\<rparr>
          else w)"
  by (auto simp: TokenBlacklist_add_def jwt_decode_exp_def redis_set_def Let_def nat_diff_distrib
      split: token.splits)

lemma add_users [simp]: "users (TokenBlacklist_add now w t) = users w"
  by (simp add: add_characterised split: token.splits)

lemma add_redis_up [simp]: "redis_up (TokenBlacklist_add now w t) = redis_up w"
  by (simp add: add_characterised split: token.splits)





text \<open>The scenario, evaluated.\<close>

lemma email_example: "toLowerCase ascii (trim ascii (toLowerCase ascii ''a@x.com'')) = ''a@x.com''"
  by code_simp

lemma login_gives_world1:
  "LoginUseCase_execute ascii (\<lambda>pw h. h = ''#'' @ pw) env0 100
     (world1\<lparr>users := [alice_doc [] 5]\<rparr>) ''a@x.com'' ''pw''
   = (Inr \<lparr>accessToken = A1, refreshToken = R1, user = alice_summary\<rparr>, world1)"
  by (simp add: LoginUseCase_execute_def findByEmail_def email_example code_defs scenario_defs)

lemma world2_users: "users world2 = [alice_doc [] 150]"
  by (simp add: world2_def AuthController_logout_def logout_request_def LogoutUseCase_execute_def
      removeRefreshToken_def world1_def alice_doc_def alice_def R1_def)

lemma world2_keys: "redis_keys world2 = [A1 \<mapsto> (''1'', 604900), R1 \<mapsto> (''1'', 2592100)]"
  by (simp add: world2_def AuthController_logout_def logout_request_def LogoutUseCase_execute_def
      removeRefreshToken_def world1_def add_characterised A1_def R1_def)

lemma world2_up: "redis_up world2"
  by (simp add: world2_def AuthController_logout_def logout_request_def LogoutUseCase_execute_def
      removeRefreshToken_def world1_def)

lemma rotate_world1:
  "n < 2592100 \<Longrightarrow>
   RefreshTokenUseCase_execute env0 n world1 R1
     = (Inr \<lparr>accessToken = Jwt alice n (n + 604800) ''ka'',
             refreshToken = Jwt alice n (n + 2592000) ''kr'', user = alice_summary\<rparr>,
        world1\<lparr>users := [alice_doc [Jwt alice n (n + 2592000) ''kr''] n]\<rparr>)"
  by (simp add: code_defs scenario_defs)

text \<open>
  The steps of one call, run without interruption at one clock reading, are the use
  case.
\<close>

lemma rotate_run_alone:
  "rotate_run e t [n, n, n, n, n] (AtIsBlacklisted, w)
     = (Returned (fst (RefreshTokenUseCase_execute e n w t)),
        snd (RefreshTokenUseCase_execute e n w t))"
  by (simp add: RefreshTokenUseCase_execute_def Let_def split: option.splits sum.splits)

lemma rotation_progress_step:
  assumes "rotation_progress t w past s"
  shows "rotation_progress t w (past @ [now]) (rotate_step e t now s)"
proof (cases s)
  case (Pair pc w')
  with assms show ?thesis
    by (cases pc)
       (auto simp: rotation_progress_def Let_def removeRefreshToken_def addRefreshToken_def
          summary_the_id_def summary_def the_id_def nth_append
          split: option.splits sum.splits)
qed

lemma rotation_progress_run:
  "rotation_progress t w past s \<Longrightarrow> rotation_progress t w (past @ clock) (rotate_run e t clock s)"
proof (induction clock arbitrary: past s)
  case Nil
  then show ?case by simp
next
  case (Cons now clock)
  from Cons.prems have "rotation_progress t w (past @ [now]) (rotate_step e t now s)"
    by (rule rotation_progress_step)
  from Cons.IH [OF this] show ?case by simp
qed

section \<open>Rotation under concurrency and in the middle of a call\<close>

text \<open>
  C1. Two concurrent rotations of the same presented token must not both succeed. The
  code does not ensure it: the membership check and the removal are separate store
  calls. With the schedule below both calls read the token set before either removes
  the token, both return a new pair, and the user ends up with two new refresh tokens
  for the one that was presented.
\<close>

theorem concurrent_rotations_both_succeed:
  "rotate_pair env0 R1
     [(True, 200), (True, 200), (True, 200), (False, 201), (False, 201), (False, 201),
      (True, 200), (True, 200), (False, 201), (False, 201)]
     (AtIsBlacklisted, AtIsBlacklisted, world1)
   = (Returned (Inr \<lparr>accessToken = Jwt alice 200 605000 ''ka'',
                     refreshToken = Jwt alice 200 2592200 ''kr'', user = alice_summary\<rparr>),
      Returned (Inr \<lparr>accessToken = Jwt alice 201 605001 ''ka'',
                     refreshToken = Jwt alice 201 2592201 ''kr'', user = alice_summary\<rparr>),
      world1\<lparr>users := [alice_doc [Jwt alice 200 2592200 ''kr'', Jwt alice 201 2592201 ''kr''] 201]\<rparr>)"
  by (simp add: code_defs scenario_defs)

text \<open>
  C3, as the code has it. A rotation changes the token set in two separate store calls,
  the removal first and the insertion second. Whatever number of its steps a call has
  taken, the Redis side is as before and the user collection is in one of three states:
  unchanged (before the removal, and after any rejection), the presented token removed
  and the new token not yet recorded (between the two calls), or the new token recorded
  in place of the presented one (after the call returned the pair).
\<close>

theorem rotation_updates_in_two_steps:
  "rotation_progress t w clock (rotate_run e t clock (AtIsBlacklisted, w))"
  using rotation_progress_run [of t w "[]" "(AtIsBlacklisted, w)" clock e]
  by (simp add: rotation_progress_def)

text \<open>
  The state the original statement excludes is reached by every successful rotation:
  after four steps the presented token is gone and the new one is not recorded.
\<close>

theorem rotation_midway_counterexample:
  "rotate_run env0 R1 [200, 200, 200, 200] (AtIsBlacklisted, world1)
     = (AtAddRefreshToken (toDomain (alice_doc [R1] 100)) (Jwt alice 200 605000 ''ka'')
          (Jwt alice 200 2592200 ''kr''),
        world1\<lparr>users := [alice_doc [] 200]\<rparr>)
   \<and> getRefreshTokens (world1\<lparr>users := [alice_doc [] 200]\<rparr>) ''u1'' = []"
  by (simp add: code_defs scenario_defs)

text \<open>Every rotation that returns a pair has passed through that state.\<close>

lemma rotation_passes_midway:
  assumes "rotate_run e t [n1, n2, n3, n4, n5] (AtIsBlacklisted, w) = (Returned (Inr r), w')"
  shows "\<exists>u a. rotate_run e t [n1, n2, n3, n4] (AtIsBlacklisted, w)
                 = (AtAddRefreshToken u a (refreshToken r), removeRefreshToken n4 w (the_id u) t)
               \<and> w' = addRefreshToken n5 (removeRefreshToken n4 w (the_id u) t) (the_id u)
                        (refreshToken r)"
  using assms
  by (auto simp: Let_def split: if_splits option.splits sum.splits)

section \<open>Rotation after rotation\<close>

text \<open>
  C2, as the code has it. After a rotation of \<open>t\<close> that succeeded and issued a refresh
  token different from \<open>t\<close>, every later rotation of \<open>t\<close> in the state the first one left
  is rejected and changes nothing: with \<open>Refresh token not found or expired\<close> as long as
  \<open>t\<close> has not reached its expiry, and with \<open>Invalid refresh token\<close> from then on.
\<close>

theorem rotated_token_is_rejected:
  assumes run: "RefreshTokenUseCase_execute e n1 w t = (Inr r, w')"
      and new: "refreshToken r \<noteq> t" and later: "n1 \<le> n2"
  shows "RefreshTokenUseCase_execute e n2 w' t =
           (Inl (Error (if (\<exists>p iat exp k. t = Jwt p iat exp k \<and> exp \<le> n2)
                        then ''Invalid refresh token''
                        else ''Refresh token not found or expired'')), w')"
proof -
  from run have nb: "\<not> isBlacklisted n1 w t"
    by (auto simp: RefreshTokenUseCase_execute_def split: if_splits)
  from run nb obtain p where p: "verifyRefreshToken e n1 t = Some p"
    by (auto simp: RefreshTokenUseCase_execute_def split: option.splits)
  from run nb p obtain u where u: "findById w (userId p) = Some u"
    by (auto simp: RefreshTokenUseCase_execute_def split: option.splits)
  have uid: "the_id u = userId p" using u by (rule findById_the_id)
  from run nb p u uid
  have w': "w' = addRefreshToken n1 (removeRefreshToken n1 w (userId p) t) (userId p) (refreshToken r)"
    by (auto simp: RefreshTokenUseCase_execute_def Let_def split: if_splits sum.splits)
  have nb': "\<not> isBlacklisted n2 w' t"
    using nb later by (simp add: w' isBlacklisted_later)
  have v: "verifyRefreshToken e n2 t
             = (if (\<exists>q iat exp s. t = Jwt q iat exp s \<and> exp \<le> n2) then None else Some p)"
    using p unfolding verifyRefreshToken_def by (rule verify_later)
  obtain u' where u': "findById w' (userId p) = Some u'"
    using u by (simp add: w' findById_add findById_remove)
  have uid': "the_id u' = userId p" using u' by (rule findById_the_id)
  have absent: "t \<notin> set (getRefreshTokens w' (userId p))"
    using new u by (simp add: w' getRefreshTokens_add getRefreshTokens_remove findById_remove)
  show ?thesis
    using nb' v u' uid' absent by (simp add: RefreshTokenUseCase_execute_def)
qed

theorem rotated_token_is_rejected_witness:
  "RefreshTokenUseCase_execute env0 200 world1 R1
     = (Inr \<lparr>accessToken = Jwt alice 200 605000 ''ka'',
            refreshToken = Jwt alice 200 2592200 ''kr'', user = alice_summary\<rparr>,
        world1\<lparr>users := [alice_doc [Jwt alice 200 2592200 ''kr''] 200]\<rparr>)
   \<and> Jwt alice 200 2592200 ''kr'' \<noteq> R1
   \<and> fst (RefreshTokenUseCase_execute env0 300
       (world1\<lparr>users := [alice_doc [Jwt alice 200 2592200 ''kr''] 200]\<rparr>) R1)
       = Inl (Error ''Refresh token not found or expired'')
   \<and> fst (RefreshTokenUseCase_execute env0 2592100
       (world1\<lparr>users := [alice_doc [Jwt alice 200 2592200 ''kr''] 200]\<rparr>) R1)
       = Inl (Error ''Invalid refresh token'')"
proof -
  have a: "RefreshTokenUseCase_execute env0 200 world1 R1
     = (Inr \<lparr>accessToken = Jwt alice 200 605000 ''ka'',
            refreshToken = Jwt alice 200 2592200 ''kr'', user = alice_summary\<rparr>,
        world1\<lparr>users := [alice_doc [Jwt alice 200 2592200 ''kr''] 200]\<rparr>)"
    using rotate_world1 [of 200] by simp
  have n: "refreshToken \<lparr>accessToken = Jwt alice 200 605000 ''ka'',
            refreshToken = Jwt alice 200 2592200 ''kr'', user = alice_summary\<rparr> \<noteq> R1"
    by (simp add: R1_def)
  from rotated_token_is_rejected [OF a n, of 300] rotated_token_is_rejected [OF a n, of 2592100] a n
  show ?thesis by (simp add: R1_def)
qed

text \<open>
  The original statement fails in two ways. A rotation at second 200 succeeds, and the
  same token presented again at its expiry (second 2592100) is rejected as invalid, not
  as unregistered. And a rotation in the very second the token was issued (second 100)
  signs the same payload with the same secret at the same \<open>iat\<close>: the new refresh token
  is the presented one, it is registered again, and the second rotation succeeds too.
\<close>

theorem rotated_token_is_rejected_counterexample:
  "fst (RefreshTokenUseCase_execute env0 200 world1 R1)
     = Inr \<lparr>accessToken = Jwt alice 200 605000 ''ka'',
            refreshToken = Jwt alice 200 2592200 ''kr'', user = alice_summary\<rparr>
   \<and> fst (RefreshTokenUseCase_execute env0 2592100
            (snd (RefreshTokenUseCase_execute env0 200 world1 R1)) R1)
       = Inl (Error ''Invalid refresh token'')
   \<and> Error ''Invalid refresh token'' \<noteq> Error ''Refresh token not found or expired''
   \<and> fst (RefreshTokenUseCase_execute env0 100 world1 R1)
       = Inr \<lparr>accessToken = A1, refreshToken = R1, user = alice_summary\<rparr>
   \<and> fst (RefreshTokenUseCase_execute env0 100
            (snd (RefreshTokenUseCase_execute env0 100 world1 R1)) R1)
       = Inr \<lparr>accessToken = A1, refreshToken = R1, user = alice_summary\<rparr>"
proof -
  have a: "RefreshTokenUseCase_execute env0 200 world1 R1
     = (Inr \<lparr>accessToken = Jwt alice 200 605000 ''ka'',
            refreshToken = Jwt alice 200 2592200 ''kr'', user = alice_summary\<rparr>,
        world1\<lparr>users := [alice_doc [Jwt alice 200 2592200 ''kr''] 200]\<rparr>)"
    using rotate_world1 [of 200] by simp
  have b: "RefreshTokenUseCase_execute env0 100 world1 R1
     = (Inr \<lparr>accessToken = A1, refreshToken = R1, user = alice_summary\<rparr>, world1)"
    using rotate_world1 [of 100] by (simp add: A1_def R1_def world1_def)
  have c: "fst (RefreshTokenUseCase_execute env0 2592100
              (world1\<lparr>users := [alice_doc [Jwt alice 200 2592200 ''kr''] 200]\<rparr>) R1)
            = Inl (Error ''Invalid refresh token'')"
    by (simp add: code_defs scenario_defs)
  show ?thesis by (simp add: a b c)
qed

text \<open>
  A rotation in a later second than the one the presented token was issued in always
  issues a different token.
\<close>

lemma later_rotation_issues_new_token:
  assumes "RefreshTokenUseCase_execute e n w t = (Inr r, w')" and "t = Jwt p iat x k" and "iat < n"
  shows "refreshToken r \<noteq> t"
  using assms
  by (auto simp: RefreshTokenUseCase_execute_def Let_def generateRefreshToken_def jwt_sign_def
      split: if_splits option.splits sum.splits)

text \<open>
  The signer has no per-token nonce: the refresh token it makes is determined by the
  identity, the refresh secret, the configured lifetime and the second of issue. So a
  rotation in the very second the presented token was issued for the same identity
  issues the presented token again, registers it again, and a repeated rotation in
  that second succeeds as well.
\<close>

theorem same_second_rotation_reissues_token:
  assumes issued: "generateRefreshToken e n p = Inr t"
      and run: "RefreshTokenUseCase_execute e n w t = (Inr r, w')"
      and same: "summary_email (user r) = payload_email p" "summary_role (user r) = payload_role p"
  shows "refreshToken r = t
       \<and> t \<in> set (getRefreshTokens w' (userId p))
       \<and> (\<exists>r2 w2. RefreshTokenUseCase_execute e n w' t = (Inr r2, w2) \<and> refreshToken r2 = t)"
proof -
  from run have nb: "\<not> isBlacklisted n w t"
    by (auto simp: RefreshTokenUseCase_execute_def split: if_splits)
  from run nb obtain q where q: "verifyRefreshToken e n t = Some q"
    by (auto simp: RefreshTokenUseCase_execute_def split: option.splits)
  from issued q have qp: "q = p"
    by (auto simp: generateRefreshToken_def jwt_sign_def verifyRefreshToken_def jwt_verify_def
        split: option.splits if_splits)
  from run nb q qp obtain u where u: "findById w (userId p) = Some u"
    by (auto simp: RefreshTokenUseCase_execute_def split: option.splits)
  have uid: "the_id u = userId p" using u by (rule findById_the_id)
  from run nb q qp u uid have mem: "t \<in> set (getRefreshTokens w (userId p))"
    by (auto simp: RefreshTokenUseCase_execute_def Let_def split: if_splits)
  let ?np = "\<lparr>userId = the_id u, payload_email = email u, payload_role = role u\<rparr>"
  from run nb q qp u uid mem obtain a where a: "generateAccessToken e n ?np = Inr a"
    by (auto simp: RefreshTokenUseCase_execute_def Let_def split: sum.splits)
  from run nb q qp u uid mem a obtain t' where t': "generateRefreshToken e n ?np = Inr t'"
    by (auto simp: RefreshTokenUseCase_execute_def Let_def split: sum.splits)
  from run nb q qp u uid mem a t'
  have r: "r = \<lparr>accessToken = a, refreshToken = t', user = summary u\<rparr>"
    and w': "w' = addRefreshToken n (removeRefreshToken n w (userId p) t) (userId p) t'"
    by (auto simp: RefreshTokenUseCase_execute_def Let_def)
  from same r have "email u = payload_email p" "role u = payload_role p"
    by (simp_all add: summary_def)
  with uid have np: "?np = p" by simp
  with issued t' have tt: "t' = t" by simp
  have in': "t \<in> set (getRefreshTokens w' (userId p))"
    using u by (simp add: w' tt getRefreshTokens_add getRefreshTokens_remove findById_remove)
  obtain u' where u': "findById w' (userId p) = Some u'"
    and eu: "email u' = email u" "role u' = role u"
    using u by (auto simp: w' findById_add findById_remove)
  have uid': "the_id u' = userId p" using u' by (rule findById_the_id)
  have np': "\<lparr>userId = the_id u', payload_email = email u', payload_role = role u'\<rparr> = ?np"
    using eu uid uid' by simp
  have nb': "\<not> isBlacklisted n w' t" using nb by (simp add: w')
  have "\<exists>r2 w2. RefreshTokenUseCase_execute e n w' t = (Inr r2, w2) \<and> refreshToken r2 = t"
    using nb' q qp u' uid' in' np' a t' tt
    by (simp add: RefreshTokenUseCase_execute_def Let_def)
  with r tt in' show ?thesis by simp
qed

theorem same_second_rotation_reissues_token_witness:
  "generateRefreshToken env0 100 alice = Inr R1
   \<and> RefreshTokenUseCase_execute env0 100 world1 R1
       = (Inr \<lparr>accessToken = A1, refreshToken = R1, user = alice_summary\<rparr>, world1)
   \<and> R1 \<in> set (getRefreshTokens world1 (userId alice))
   \<and> (\<exists>r2 w2. RefreshTokenUseCase_execute env0 100 world1 R1 = (Inr r2, w2) \<and> refreshToken r2 = R1)"
proof -
  have i: "generateRefreshToken env0 100 alice = Inr R1"
    by (simp add: generateRefreshToken_def jwt_sign_def scenario_defs)
  have b: "RefreshTokenUseCase_execute env0 100 world1 R1
     = (Inr \<lparr>accessToken = A1, refreshToken = R1, user = alice_summary\<rparr>, world1)"
    using rotate_world1 [of 100] by (simp add: A1_def R1_def world1_def)
  have s: "summary_email (user \<lparr>accessToken = A1, refreshToken = R1, user = alice_summary\<rparr>)
             = payload_email alice"
     "summary_role (user \<lparr>accessToken = A1, refreshToken = R1, user = alice_summary\<rparr>)
             = payload_role alice"
    by (simp_all add: alice_summary_def alice_def)
  from same_second_rotation_reissues_token [OF i b s] i b show ?thesis by simp
qed

section \<open>What a rejection tells the caller\<close>

text \<open>
  C4, as the code has it. Every rejected rotation is answered with status 401 and
  \<open>success: false\<close>, every rejected authentication with status 401, and nothing but the
  message is in the body; the message is the text of the failure cause: revoked, invalid
  or expired, unknown user, unregistered token (and the signer's error when a secret is
  missing) for a rotation; missing header, revoked, invalid or expired for an
  authentication. A rejected rotation changes no state.
\<close>

theorem rejections_name_their_cause:
  "(t \<noteq> Raw [] \<longrightarrow> RefreshTokenUseCase_execute e now w t = (Inl err, w') \<longrightarrow>
      AuthController_refreshToken e now w (req\<lparr>body_refreshToken := Some t\<rparr>)
        = (reply 401 (Some False) (message err), w)
      \<and> message err =
          (if isBlacklisted now w t then ''Refresh token is revoked''
           else case verifyRefreshToken e now t of
                  None \<Rightarrow> ''Invalid refresh token''
                | Some p \<Rightarrow>
                    (case findById w (userId p) of
                       None \<Rightarrow> ''User not found''
                     | Some u \<Rightarrow>
                         if t \<notin> set (getRefreshTokens w (the_id u))
                         then ''Refresh token not found or expired''
                         else ''secretOrPrivateKey must have a value'')))
   \<and> (authenticate e now w req = Inl resp \<longrightarrow>
        resp = reply 401 None
                 (case authorization req of
                    Some (Bearer a) \<Rightarrow>
                      if isBlacklisted now w a then ''Token has been revoked''
                      else ''Invalid or expired token''
                  | _ \<Rightarrow> ''Missing or invalid authorization header''))"
proof -
  have rot: "RefreshTokenUseCase_execute e now w t = (Inl err, w') \<longrightarrow>
      w' = w \<and> message err =
          (if isBlacklisted now w t then ''Refresh token is revoked''
           else case verifyRefreshToken e now t of
                  None \<Rightarrow> ''Invalid refresh token''
                | Some p \<Rightarrow>
                    (case findById w (userId p) of
                       None \<Rightarrow> ''User not found''
                     | Some u \<Rightarrow>
                         if t \<notin> set (getRefreshTokens w (the_id u))
                         then ''Refresh token not found or expired''
                         else ''secretOrPrivateKey must have a value''))"
  proof (cases "isBlacklisted now w t")
    case True
    then show ?thesis by (auto simp: RefreshTokenUseCase_execute_def)
  next
    case nb: False
    show ?thesis
    proof (cases "verifyRefreshToken e now t")
      case None
      with nb show ?thesis by (auto simp: RefreshTokenUseCase_execute_def)
    next
      case p: (Some p)
      show ?thesis
      proof (cases "findById w (userId p)")
        case None
        with nb p show ?thesis by (auto simp: RefreshTokenUseCase_execute_def)
      next
        case u: (Some u)
        show ?thesis
        proof (cases "t \<in> set (getRefreshTokens w (the_id u))")
          case False
          with nb p u show ?thesis by (auto simp: RefreshTokenUseCase_execute_def)
        next
          case True
          with nb p u show ?thesis
            by (auto simp: RefreshTokenUseCase_execute_def Let_def
                  split: sum.splits dest: generateAccessToken_error generateRefreshToken_error)
        qed
      qed
    qed
  qed
  have ctl: "t \<noteq> Raw [] \<longrightarrow> RefreshTokenUseCase_execute e now w t = (Inl err, w') \<longrightarrow>
      AuthController_refreshToken e now w (req\<lparr>body_refreshToken := Some t\<rparr>)
        = (reply 401 (Some False) (message err), w')"
    by (simp add: AuthController_refreshToken_def)
  have auth: "authenticate e now w req = Inl resp \<longrightarrow>
        resp = reply 401 None
                 (case authorization req of
                    Some (Bearer a) \<Rightarrow>
                      if isBlacklisted now w a then ''Token has been revoked''
                      else ''Invalid or expired token''
                  | _ \<Rightarrow> ''Missing or invalid authorization header'')"
    by (auto simp: authenticate_def split: option.splits auth_header.splits if_splits)
  from rot ctl auth show ?thesis by blast
qed

theorem rejections_name_their_cause_witness:
  "R1 \<noteq> Raw []
   \<and> RefreshTokenUseCase_execute env0 200 world2 R1 = (Inl (Error ''Refresh token is revoked''), world2)
   \<and> AuthController_refreshToken env0 200 world2 logout_request
       = (reply 401 (Some False) ''Refresh token is revoked'', world2)
   \<and> isBlacklisted 200 world2 R1
   \<and> authenticate env0 200 world2 logout_request = Inl (reply 401 None ''Token has been revoked'')"
proof -
  have r: "R1 \<noteq> Raw []" by (simp add: R1_def)
  have b: "isBlacklisted 200 world2 R1" "isBlacklisted 200 world2 A1"
    by (simp_all add: isBlacklisted_def redis_get_def world2_up world2_keys A1_def R1_def)
  have x: "RefreshTokenUseCase_execute env0 200 world2 R1
             = (Inl (Error ''Refresh token is revoked''), world2)"
    using b by (simp add: RefreshTokenUseCase_execute_def)
  have a: "authenticate env0 200 world2 logout_request
             = Inl (reply 401 None ''Token has been revoked'')"
    using b by (simp add: authenticate_def logout_request_def)
  from rejections_name_their_cause
         [of R1 env0 200 world2 "Error ''Refresh token is revoked''" world2 logout_request
             "reply 401 None ''Token has been revoked''"] r b x a
  show ?thesis by (simp add: logout_request_def)
qed

text \<open>
  Four rejected rotations with four different bodies: a revoked token, the same token
  after its expiry, a token of a user who does not exist, and a token that is not
  registered.
\<close>

theorem rejections_name_their_cause_counterexample:
  "fst (AuthController_refreshToken env0 200 world2 (refresh_request R1))
     = reply 401 (Some False) ''Refresh token is revoked''
   \<and> fst (AuthController_refreshToken env0 2592100 world2 (refresh_request R1))
     = reply 401 (Some False) ''Invalid refresh token''
   \<and> fst (AuthController_refreshToken env0 200 world2 (refresh_request bob_token))
     = reply 401 (Some False) ''User not found''
   \<and> fst (AuthController_refreshToken env0 200 (world2\<lparr>redis_keys := Map.empty\<rparr>) (refresh_request R1))
     = reply 401 (Some False) ''Refresh token not found or expired''
   \<and> reply 401 (Some False) ''Refresh token is revoked'' \<noteq> reply 401 (Some False) ''Invalid refresh token''
   \<and> reply 401 (Some False) ''User not found'' \<noteq> reply 401 (Some False) ''Invalid refresh token''
   \<and> reply 401 (Some False) ''Refresh token is revoked''
       \<noteq> reply 401 (Some False) ''Refresh token not found or expired''"
  by (simp add: AuthController_refreshToken_def refresh_request_def code_defs world2_keys world2_up
       world2_users bob_token_def reply_def scenario_defs)

section \<open>The revocation cache\<close>

text \<open>
  C5, as the code has it. While Redis cannot be reached, \<open>isBlacklisted\<close> answers false
  for every token, and authentication and rotation go on exactly as they would with a
  reachable store that lists nothing. No setting chooses between this and a rejection.
\<close>

theorem unreachable_cache_is_no_revocation:
  assumes "\<not> redis_up w"
  shows "isBlacklisted now w t = False
     \<and> authenticate e now w req
         = authenticate e now (w\<lparr>redis_up := True, redis_keys := Map.empty\<rparr>) req
     \<and> fst (RefreshTokenUseCase_execute e now w t)
         = fst (RefreshTokenUseCase_execute e now (w\<lparr>redis_up := True, redis_keys := Map.empty\<rparr>) t)
     \<and> users (snd (RefreshTokenUseCase_execute e now w t))
         = users (snd (RefreshTokenUseCase_execute e now
                         (w\<lparr>redis_up := True, redis_keys := Map.empty\<rparr>) t))"
proof -
  let ?w = "w\<lparr>redis_up := True, redis_keys := Map.empty\<rparr>"
  have b: "\<And>x. isBlacklisted now w x = False" "\<And>x. isBlacklisted now ?w x = False"
    using assms by (simp_all add: isBlacklisted_def redis_get_def)
  have u: "\<And>i. findById ?w i = findById w i" "\<And>i. getRefreshTokens ?w i = getRefreshTokens w i"
    "\<And>m i x. users (removeRefreshToken m ?w i x) = users (removeRefreshToken m w i x)"
    "\<And>m i x j y. users (addRefreshToken m (removeRefreshToken m ?w i x) j y)
                 = users (addRefreshToken m (removeRefreshToken m w i x) j y)"
    by (simp_all add: findById_def getRefreshTokens_def removeRefreshToken_def addRefreshToken_def)
  have a: "authenticate e now w req = authenticate e now ?w req"
    by (simp add: authenticate_def b split: option.splits auth_header.splits)
  have r: "fst (RefreshTokenUseCase_execute e now w t) = fst (RefreshTokenUseCase_execute e now ?w t)"
    by (simp add: RefreshTokenUseCase_execute_def b u Let_def split: option.splits sum.splits)
  have s: "users (snd (RefreshTokenUseCase_execute e now w t))
             = users (snd (RefreshTokenUseCase_execute e now ?w t))"
    by (simp add: RefreshTokenUseCase_execute_def b u Let_def split: option.splits sum.splits)
  from b(1) a r s show ?thesis by simp
qed

theorem unreachable_cache_is_no_revocation_witness:
  "\<not> redis_up (world2\<lparr>redis_up := False\<rparr>)
   \<and> \<not> isBlacklisted 200 (world2\<lparr>redis_up := False\<rparr>) A1
   \<and> isBlacklisted 200 world2 A1
   \<and> authenticate env0 200 (world2\<lparr>redis_up := False\<rparr>) logout_request
       = authenticate env0 200 (world2\<lparr>redis_up := True, redis_keys := Map.empty\<rparr>) logout_request
   \<and> authenticate env0 200 (world2\<lparr>redis_up := True, redis_keys := Map.empty\<rparr>) logout_request
       = Inr logout_request"
proof -
  have h: "\<not> redis_up (world2\<lparr>redis_up := False\<rparr>)" by simp
  have b: "isBlacklisted 200 world2 A1"
    by (simp add: isBlacklisted_def redis_get_def world2_up world2_keys A1_def R1_def)
  have v: "authenticate env0 200 (world2\<lparr>redis_up := True, redis_keys := Map.empty\<rparr>) logout_request
       = Inr logout_request"
    by (simp add: authenticate_def logout_request_def isBlacklisted_def redis_get_def
          verifyAccessToken_def jwt_verify_def scenario_defs)
  from unreachable_cache_is_no_revocation [OF h, of 200 A1 env0 logout_request] b v
  show ?thesis by simp
qed

text \<open>
  The access token revoked by the logout at second 150 is rejected at second 200 while
  Redis answers, and accepted at the same second when Redis is unreachable.
\<close>

theorem unreachable_cache_counterexample:
  "authenticate env0 200 world2 logout_request = Inl (reply 401 None ''Token has been revoked'')
   \<and> authenticate env0 200 (world2\<lparr>redis_up := False\<rparr>) logout_request = Inr logout_request"
  by (simp add: authenticate_def logout_request_def isBlacklisted_def redis_get_def world2_keys
       world2_up verifyAccessToken_def jwt_verify_def env0_def A1_def R1_def)

text \<open>
  C6, as the code has it. \<open>TokenBlacklist.add\<close> changes nothing when the token cannot be
  parsed, when its expiry has passed, and when Redis cannot be reached (the rejected
  command is caught and logged). Otherwise it stores the token with a time to live of
  \<open>exp - now\<close> seconds, its remaining lifetime; and while Redis is reachable,
  \<open>isBlacklisted\<close> is then true from that second until the token's expiry and false
  from the expiry on.
\<close>

theorem revoke_until_expiry:
  "TokenBlacklist_add now w t =
     (case t of
        Raw s \<Rightarrow> w
      | Jwt p iat exp k \<Rightarrow>
          if now < exp \<and> redis_up w
          then w\<lparr>redis_keys := (redis_keys w)(t \<mapsto> (''1'', now + (exp - now)))\<rparr>
          else w)
   \<and> (redis_up w \<longrightarrow>
        (\<forall>p iat exp k q. t = Jwt p iat exp k \<longrightarrow> now < exp \<longrightarrow> now \<le> q \<longrightarrow>
           isBlacklisted q (TokenBlacklist_add now w t) t = (q < exp)))"
  by (auto simp: add_characterised isBlacklisted_def redis_get_def split: token.splits)

theorem revoke_until_expiry_witness:
  "redis_up world1
   \<and> isBlacklisted 150 (TokenBlacklist_add 150 world1 A1) A1
   \<and> isBlacklisted 604899 (TokenBlacklist_add 150 world1 A1) A1
   \<and> \<not> isBlacklisted 604900 (TokenBlacklist_add 150 world1 A1) A1
   \<and> redis_keys (TokenBlacklist_add 150 world1 A1) A1 = Some (''1'', 150 + 604750)
   \<and> TokenBlacklist_add 604900 world1 A1 = world1
   \<and> TokenBlacklist_add 150 world1 (Raw ''junk'') = world1"
proof -
  note shape = revoke_until_expiry [THEN conjunct1]
  note listed = revoke_until_expiry [THEN conjunct2, rule_format]
  have up: "redis_up world1" by (simp add: world1_def)
  have a: "A1 = Jwt alice 100 604900 ''ka''" by (simp add: A1_def)
  have l: "(150::nat) < 604900" by simp
  have q1: "isBlacklisted 150 (TokenBlacklist_add 150 world1 A1) A1"
    using listed [OF up a l, of 150] by simp
  have q2: "isBlacklisted 604899 (TokenBlacklist_add 150 world1 A1) A1"
    using listed [OF up a l, of 604899] by simp
  have q3: "\<not> isBlacklisted 604900 (TokenBlacklist_add 150 world1 A1) A1"
    using listed [OF up a l, of 604900] by simp
  have k: "redis_keys (TokenBlacklist_add 150 world1 A1) A1 = Some (''1'', 150 + 604750)"
    unfolding shape [of 150 world1 A1] using up by (simp add: A1_def)
  have n1: "TokenBlacklist_add 604900 world1 A1 = world1"
    unfolding shape [of 604900 world1 A1] by (simp add: A1_def)
  have n2: "TokenBlacklist_add 150 world1 (Raw ''junk'') = world1"
    by (simp add: shape [of 150 world1 "Raw ''junk''"])
  from up q1 q2 q3 k n1 n2 show ?thesis by simp
qed

text \<open>
  A token that is well formed and not expired, handed to \<open>add\<close> while Redis is
  unreachable: nothing is stored, and the token is not listed, neither at once nor when
  Redis answers again.
\<close>

theorem revoke_until_expiry_counterexample:
  "verifyAccessToken env0 150 A1 = Some alice
   \<and> TokenBlacklist_add 150 (world1\<lparr>redis_up := False\<rparr>) A1 = world1\<lparr>redis_up := False\<rparr>
   \<and> \<not> isBlacklisted 150 (TokenBlacklist_add 150 (world1\<lparr>redis_up := False\<rparr>) A1) A1
   \<and> \<not> isBlacklisted 150
         ((TokenBlacklist_add 150 (world1\<lparr>redis_up := False\<rparr>) A1)\<lparr>redis_up := True\<rparr>) A1"
  by (simp add: add_characterised isBlacklisted_def redis_get_def verifyAccessToken_def
       jwt_verify_def scenario_defs)

section \<open>Logout\<close>




section \<open>Missing signing secrets\<close>




section \<open>Registration and the current-user view\<close>

lemma find_same_but_secrets:
  "list_all2 same_but_secrets xs ys \<Longrightarrow>
   rel_option same_but_secrets (find (\<lambda>d. doc_id d = i) xs) (find (\<lambda>d. doc_id d = i) ys)"
proof (induction xs ys rule: list_all2_induct)
  case Nil
  then show ?case by simp
next
  case (Cons x xs y ys)
  from Cons.hyps(1) have "doc_id y = doc_id x"
    by (cases x, cases y) (simp add: same_but_secrets_def)
  with Cons show ?case by simp
qed

text \<open>
  C9. \<open>GetUserUseCase.execute\<close> returns neither the password hash nor the refresh-token
  list: its result has no such field, and two user collections whose documents differ
  only in password hash or refresh tokens give the same result for every user id.
\<close>

theorem get_user_hides_secrets:
  assumes "list_all2 same_but_secrets (users w) (users w')"
  shows "GetUserUseCase_execute w uid = GetUserUseCase_execute w' uid"
proof -
  let ?f = "find (\<lambda>d. doc_id d = uid) (users w)"
  let ?g = "find (\<lambda>d. doc_id d = uid) (users w')"
  have r: "rel_option same_but_secrets ?f ?g"
    using assms by (rule find_same_but_secrets)
  show ?thesis
  proof (cases ?f)
    case None
    with r have "?g = None" by (cases ?g) simp_all
    with None show ?thesis by (simp add: GetUserUseCase_execute_def findById_def)
  next
    case (Some d)
    with r obtain d' where d': "?g = Some d'" "same_but_secrets d d'"
      by (cases ?g) simp_all
    from d'(2)
    have "d' = d\<lparr>doc_password := doc_password d', doc_refreshTokens := doc_refreshTokens d'\<rparr>"
      by (simp add: same_but_secrets_def)
    then have "doc_id d' = doc_id d \<and> doc_email d' = doc_email d \<and> doc_name d' = doc_name d
       \<and> doc_role d' = doc_role d \<and> doc_isActive d' = doc_isActive d
       \<and> doc_createdAt d' = doc_createdAt d \<and> doc_updatedAt d' = doc_updatedAt d"
      by (cases d, cases d') simp
    with Some d'(1) show ?thesis
      by (simp add: GetUserUseCase_execute_def findById_def toDomain_def)
  qed
qed

theorem get_user_hides_secrets_witness:
  "list_all2 same_but_secrets (users world1)
     (users (world1\<lparr>users := [(alice_doc [] 100)\<lparr>doc_password := ''#other''\<rparr>]\<rparr>))
   \<and> GetUserUseCase_execute world1 ''u1''
       = GetUserUseCase_execute (world1\<lparr>users := [(alice_doc [] 100)\<lparr>doc_password := ''#other''\<rparr>]\<rparr>) ''u1''
   \<and> GetUserUseCase_execute world1 ''u1''
       = Inr \<lparr>pub_id = Some ''u1'', pub_email = ''a@x.com'', pub_name = ''Ann'', pub_role = USER,
              pub_isActive = True, pub_createdAt = Some 5, pub_updatedAt = Some 100\<rparr>"
proof -
  have h: "list_all2 same_but_secrets (users world1)
     (users (world1\<lparr>users := [(alice_doc [] 100)\<lparr>doc_password := ''#other''\<rparr>]\<rparr>))"
    by (simp add: same_but_secrets_def world1_def alice_doc_def)
  have v: "GetUserUseCase_execute world1 ''u1''
       = Inr \<lparr>pub_id = Some ''u1'', pub_email = ''a@x.com'', pub_name = ''Ann'', pub_role = USER,
              pub_isActive = True, pub_createdAt = Some 5, pub_updatedAt = Some 100\<rparr>"
    by (simp add: GetUserUseCase_execute_def findById_def toDomain_def world1_def alice_doc_def)
  from h v get_user_hides_secrets [OF h, of "''u1''"] show ?thesis by simp
qed

text \<open>
  C10. Every user \<open>RegisterUseCase.execute\<close> creates has role \<open>user\<close>, is active and has
  no refresh token, whatever the email, password and name: both the returned user and
  the one document the call adds to the collection.
\<close>

theorem register_creates_plain_user:
  assumes "RegisterUseCase_execute js hashPassword now newId w em pw nm = (Inr u, w')"
  shows "role u = USER \<and> isActive u \<and> refreshTokens u = [] \<and>
         (\<exists>d. users w' = users w @ [d] \<and> toDomain d = u \<and>
              doc_role d = USER \<and> doc_isActive d \<and> doc_refreshTokens d = [])"
  using assms
  by (auto simp: RegisterUseCase_execute_def create_def toDomain_def Let_def
           split: option.splits if_splits)

lemma padded_email_example:
  "toLowerCase ascii (trim ascii (toLowerCase ascii '' A@X.com'')) = ''a@x.com''"
  by code_simp

theorem register_creates_plain_user_witness:
  "\<exists>u w'. RegisterUseCase_execute ascii (\<lambda>p. ''#'' @ p) 5 ''u1'' world0 '' A@X.com'' ''pw'' ''Ann''
            = (Inr u, w')
     \<and> role u = USER \<and> isActive u \<and> refreshTokens u = []
     \<and> email u = ''a@x.com'' \<and> users w' = [alice_doc [] 5]"
proof -
  have run: "RegisterUseCase_execute ascii (\<lambda>p. ''#'' @ p) 5 ''u1'' world0 '' A@X.com'' ''pw'' ''Ann''
      = (Inr (toDomain (alice_doc [] 5)), world0\<lparr>users := [alice_doc [] 5]\<rparr>)"
    by (simp add: RegisterUseCase_execute_def findByEmail_def create_def toDomain_def world0_def
          alice_doc_def padded_email_example Let_def)
  from register_creates_plain_user [OF run] run show ?thesis
    by (simp add: toDomain_def alice_doc_def)
qed

end
